theory Spec2Isabelle
  imports Complex_Main "HOL-Library.AList"
begin

section \<open>The Python values the server handles\<close>

text \<open>
  The module \<^verbatim>\<open>server.py\<close> proxies the USDA Food Data Central API: a mediator
  (\<^verbatim>\<open>make_fdc_request\<close>) issues one HTTP request, two formatters render a food
  record as text, and four tool handlers validate their arguments, call the mediator
  and format what comes back. The payloads are whatever \<^verbatim>\<open>response.json()\<close>
  returns, so the embedding works on JSON values as Python sees them.

  Scope of the model of Python itself:
  \<^item> a character is a code point below 256. \<^verbatim>\<open>str.strip\<close> and \<^verbatim>\<open>int\<close> are modelled on
    all of them (their whitespace and their decimal digits); \<^verbatim>\<open>str.upper\<close> is modelled
    on the ASCII letters and leaves the other characters as they are, which decides
    the comparisons with GET and POST as Python does (no other character of the range
    has G, E, T, P, O or S as its upper case);
  \<^item> a JSON number is an \<^verbatim>\<open>int\<close> or a finite \<^verbatim>\<open>float\<close>; a float is modelled by
    its value, a rational, and float arithmetic is exact where Python rounds (the code
    subtracts from a float only when \<^verbatim>\<open>totalHits\<close> is one);
  \<^item> \<^verbatim>\<open>repr\<close> of a float, a list or a dict (what \<^verbatim>\<open>str\<close> and an f-string
    print for them) is a parameter \<open>rp\<close> of every function that prints a payload:
    the theorems hold for every such function;
  \<^item> \<^verbatim>\<open>async\<close>/\<^verbatim>\<open>await\<close> is sequential: each handler awaits its single request.
\<close>

datatype json =
    JNull
  | JBool bool
  | JInt int
  | JFloat rat
  | JStr string
  | JArr "json list"
  | JObj "(string \<times> json) list"

text \<open>
  A \<open>JObj\<close> lists the items of a Python dict in insertion order; \<open>map_of\<close> looks a
  key up. The exceptions the code can raise on a payload of the wrong shape are values.
\<close>

datatype exn = AttributeError | TypeError

definition and_then :: "exn + 'a \<Rightarrow> ('a \<Rightarrow> exn + 'b) \<Rightarrow> exn + 'b" where
  "and_then m f = (case m of Inl e \<Rightarrow> Inl e | Inr v \<Rightarrow> f v)"

text \<open>Truthiness: \<^verbatim>\<open>bool(v)\<close>, as \<^verbatim>\<open>if v:\<close> and \<^verbatim>\<open>not v\<close> test it.\<close>

fun truthy :: "json \<Rightarrow> bool" where
  "truthy JNull = False"
| "truthy (JBool b) = b"
| "truthy (JInt i) = (i \<noteq> 0)"
| "truthy (JFloat q) = (q \<noteq> 0)"
| "truthy (JStr s) = (s \<noteq> [])"
| "truthy (JArr xs) = (xs \<noteq> [])"
| "truthy (JObj kvs) = (kvs \<noteq> [])"

text \<open>Truthiness of an optional string argument (\<^verbatim>\<open>str | None\<close>).\<close>

fun truthy_str :: "string option \<Rightarrow> bool" where
  "truthy_str None = False"
| "truthy_str (Some s) = (s \<noteq> [])"

text \<open>\<^verbatim>\<open>v.get(key, default)\<close>: only a dict has the method.\<close>

fun py_get :: "json \<Rightarrow> string \<Rightarrow> json \<Rightarrow> exn + json" where
  "py_get (JObj kvs) k d = Inr (case map_of kvs k of None \<Rightarrow> d | Some v \<Rightarrow> v)"
| "py_get _ k d = Inl AttributeError"

text \<open>
  \<^verbatim>\<open>v > n\<close> and \<^verbatim>\<open>v - n\<close> for an int \<open>n\<close>: numbers and booleans (\<^verbatim>\<open>True\<close> is 1)
  compare and subtract, anything else raises. A float difference is the exact one.
\<close>

fun py_gt :: "json \<Rightarrow> int \<Rightarrow> exn + bool" where
  "py_gt (JInt i) n = Inr (n < i)"
| "py_gt (JFloat q) n = Inr (of_int n < q)"
| "py_gt (JBool b) n = Inr (n < (if b then 1 else 0))"
| "py_gt _ n = Inl TypeError"

fun py_minus :: "json \<Rightarrow> int \<Rightarrow> exn + json" where
  "py_minus (JInt i) n = Inr (JInt (i - n))"
| "py_minus (JFloat q) n = Inr (JFloat (q - of_int n))"
| "py_minus (JBool b) n = Inr (JInt ((if b then 1 else 0) - n))"
| "py_minus _ n = Inl TypeError"

text \<open>\<^verbatim>\<open>len(v)\<close>.\<close>

fun py_len :: "json \<Rightarrow> exn + nat" where
  "py_len (JArr xs) = Inr (length xs)"
| "py_len (JStr s) = Inr (length s)"
| "py_len (JObj kvs) = Inr (length kvs)"
| "py_len _ = Inl TypeError"

text \<open>
  \<^verbatim>\<open>for x in v[:n]\<close> and \<^verbatim>\<open>for x in v\<close>: the items the loop visits. A string yields its
  characters, a dict its keys; slicing a dict raises (\<^verbatim>\<open>TypeError\<close>, or \<^verbatim>\<open>KeyError\<close>
  from Python 3.12 on: the model does not tell them apart).
\<close>

fun sliced :: "nat \<Rightarrow> json \<Rightarrow> exn + json list" where
  "sliced n (JArr xs) = Inr (take n xs)"
| "sliced n (JStr s) = Inr (map (\<lambda>c. JStr [c]) (take n s))"
| "sliced n _ = Inl TypeError"

fun items :: "json \<Rightarrow> exn + json list" where
  "items (JArr xs) = Inr xs"
| "items (JStr s) = Inr (map (\<lambda>c. JStr [c]) s)"
| "items (JObj kvs) = Inr (map (\<lambda>kv. JStr (fst kv)) kvs)"
| "items _ = Inl TypeError"

subsection \<open>Strings\<close>

fun join :: "string \<Rightarrow> string list \<Rightarrow> string" where
  "join sep [] = []"
| "join sep [s] = s"
| "join sep (s # t # ss) = s @ sep @ join sep (t # ss)"

text \<open>\<^verbatim>\<open>s.split(",")\<close>: always at least one piece.\<close>

fun split_comma :: "string \<Rightarrow> string list" where
  "split_comma [] = [[]]"
| "split_comma (c # cs) =
     (if c = CHR '','' then [] # split_comma cs
      else (case split_comma cs of [] \<Rightarrow> [[c]] | p # ps \<Rightarrow> (c # p) # ps))"

definition is_space :: "char \<Rightarrow> bool" where
  "is_space c = (of_char c \<in> {9, 10, 11, 12, 13, 28, 29, 30, 31, 32, 133, 160 :: nat})"

definition strip :: "string \<Rightarrow> string" where
  "strip s = rev (dropWhile is_space (rev (dropWhile is_space s)))"

definition is_digit :: "char \<Rightarrow> bool" where
  "is_digit c = (48 \<le> (of_char c :: nat) \<and> (of_char c :: nat) \<le> 57)"

definition digit_val :: "char \<Rightarrow> nat" where
  "digit_val c = of_char c - 48"

definition upper_char :: "char \<Rightarrow> char" where
  "upper_char c =
     (case map_of (zip ''abcdefghijklmnopqrstuvwxyz'' ''ABCDEFGHIJKLMNOPQRSTUVWXYZ'') c of
        None \<Rightarrow> c
      | Some u \<Rightarrow> u)"

definition upper :: "string \<Rightarrow> string" where
  "upper s = map upper_char s"

text \<open>\<^verbatim>\<open>needle in haystack\<close> on two strings: a substring test.\<close>

fun is_prefix :: "string \<Rightarrow> string \<Rightarrow> bool" where
  "is_prefix [] s = True"
| "is_prefix (c # cs) [] = False"
| "is_prefix (c # cs) (d # ds) = (c = d \<and> is_prefix cs ds)"

fun contains :: "string \<Rightarrow> string \<Rightarrow> bool" where
  "contains needle [] = (needle = [])"
| "contains needle (c # cs) = (is_prefix needle (c # cs) \<or> contains needle cs)"

text \<open>\<^verbatim>\<open>key in v\<close> for a string \<open>key\<close>: a dict's keys, a list's items, a substring.\<close>

fun py_in :: "string \<Rightarrow> json \<Rightarrow> exn + bool" where
  "py_in k (JObj kvs) = Inr (map_of kvs k \<noteq> None)"
| "py_in k (JArr xs) = Inr (JStr k \<in> set xs)"
| "py_in k (JStr s) = Inr (contains k s)"
| "py_in k _ = Inl TypeError"

subsection \<open>Integers as text\<close>

text \<open>
  \<^verbatim>\<open>int(s)\<close> on a string: surrounding whitespace is dropped, one sign is allowed, then
  decimal digits, where a single underscore may stand between two digits, and at most
  4300 digits (CPython's default limit; underscores do not count, leading zeros do).
  \<open>None\<close> is the \<^verbatim>\<open>ValueError\<close>.
\<close>

fun int_digits :: "nat \<Rightarrow> string \<Rightarrow> nat option" where
  "int_digits acc [] = Some acc"
| "int_digits acc (c # cs) =
     (if is_digit c then int_digits (10 * acc + digit_val c) cs
      else if c = CHR ''_'' \<and> cs \<noteq> [] \<and> is_digit (hd cs) then int_digits acc cs
      else None)"

definition max_str_digits :: nat where
  "max_str_digits = 4300"

definition int_literal :: "string \<Rightarrow> nat option" where
  "int_literal s =
     (case s of [] \<Rightarrow> None
      | c # cs \<Rightarrow>
          if is_digit c \<and> length (filter is_digit s) \<le> max_str_digits
          then int_digits (digit_val c) cs else None)"

definition py_int :: "string \<Rightarrow> int option" where
  "py_int s =
     (case strip s of [] \<Rightarrow> None
      | c # cs \<Rightarrow>
          if c = CHR ''-'' then map_option (\<lambda>n. - int n) (int_literal cs)
          else if c = CHR ''+'' then map_option int (int_literal cs)
          else map_option int (int_literal (c # cs)))"

text \<open>\<^verbatim>\<open>str(i)\<close> of an int: its decimal digits.\<close>

definition digit_char :: "nat \<Rightarrow> char" where
  "digit_char d = ''0123456789'' ! d"

function str_nat :: "nat \<Rightarrow> string" where
  "str_nat n =
     (if n < 10 then [digit_char n] else str_nat (n div 10) @ [digit_char (n mod 10)])"
  by pat_completeness auto
termination
  by (relation "measure id") auto

declare str_nat.simps [simp del]

definition str_int :: "int \<Rightarrow> string" where
  "str_int i = (if i < 0 then CHR ''-'' # str_nat (nat (- i)) else str_nat (nat i))"

text \<open>
  \<^verbatim>\<open>str(v)\<close>, which is also what an f-string field prints: a string is itself, an int
  its digits, \<^verbatim>\<open>None\<close>, \<^verbatim>\<open>True\<close> and \<^verbatim>\<open>False\<close> their names; a float, a list and a
  dict print their \<^verbatim>\<open>repr\<close>, the parameter \<open>rp\<close>.
\<close>

fun py_str :: "(json \<Rightarrow> string) \<Rightarrow> json \<Rightarrow> string" where
  "py_str rp (JStr s) = s"
| "py_str rp (JInt i) = str_int i"
| "py_str rp JNull = ''None''"
| "py_str rp (JBool b) = (if b then ''True'' else ''False'')"
| "py_str rp v = rp v"

text \<open>\<^verbatim>\<open>[int(id.strip()) for id in s.split(",")]\<close>: \<open>None\<close> when a piece raises.\<close>

fun parse_all :: "string list \<Rightarrow> int list option" where
  "parse_all [] = Some []"
| "parse_all (p # ps) =
     (case py_int (strip p) of None \<Rightarrow> None
      | Some i \<Rightarrow> (case parse_all ps of None \<Rightarrow> None | Some is \<Rightarrow> Some (i # is)))"

definition parse_ids :: "string \<Rightarrow> int list option" where
  "parse_ids s = parse_all (split_comma s)"

section \<open>The HTTP request mediator\<close>

text \<open>
  What the mediator hands to \<^verbatim>\<open>httpx\<close>: \<^verbatim>\<open>client.get\<close> or \<^verbatim>\<open>client.post\<close> with the URL,
  the headers, the query parameters, the JSON body and the timeout (seconds). What comes
  back is a function of the request: a 2xx response with its parsed body, an error
  status with the response text, or any other exception with its message.
\<close>

datatype verb = GET | POST

record request =
  req_verb :: verb
  req_url :: string
  req_headers :: "(string \<times> string) list"
  req_params :: "(string \<times> string) list"
  req_json :: "json option"
  req_timeout :: nat

datatype response =
    Json json
  | HTTPStatusError nat string
  | RequestFailed string

definition FDC_API_BASE :: string where
  "FDC_API_BASE = ''https://api.nal.usda.gov/fdc/v1''"

definition USER_AGENT :: string where
  "USER_AGENT = ''usda-fdc-mcp/1.0''"

definition error_result :: "string \<Rightarrow> json" where
  "error_result msg = JObj [(''error'', JStr msg)]"

definition lstrip_slash :: "string \<Rightarrow> string" where
  "lstrip_slash s = dropWhile (\<lambda>c. c = CHR ''/'') s"

text \<open>
  Lines 45 to 50: the request is issued (it is the one entry of the call log), the
  status is checked and the body parsed; both kinds of failure become an error result.
\<close>

definition await_response :: "(request \<Rightarrow> response) \<Rightarrow> request \<Rightarrow> json \<times> request list" where
  "await_response net req =
     (case net req of
        Json v \<Rightarrow> v
      | HTTPStatusError code body \<Rightarrow> error_result (''HTTP '' @ str_nat code @ '': '' @ body)
      | RequestFailed e \<Rightarrow> error_result (''Request failed: '' @ e),
      [req])"

text \<open>
  \<^verbatim>\<open>make_fdc_request\<close>, with the module's global \<^verbatim>\<open>API_KEY\<close> (\<^verbatim>\<open>os.getenv\<close>: a
  string or \<^verbatim>\<open>None\<close>) and the network as arguments. It returns the result and the
  requests it issued.
\<close>

definition make_fdc_request ::
  "string option \<Rightarrow> (request \<Rightarrow> response) \<Rightarrow> string \<Rightarrow> string \<Rightarrow>
   (string \<times> string) list option \<Rightarrow> json option \<Rightarrow> json \<times> request list" where
  "make_fdc_request API_KEY net endpoint method params data =
     (case API_KEY of
        None \<Rightarrow> (error_result ''API key not set. Use set_api_key tool first.'', [])
      | Some key \<Rightarrow>
          if key = [] then (error_result ''API key not set. Use set_api_key tool first.'', [])
          else
            let url = FDC_API_BASE @ ''/'' @ lstrip_slash endpoint;
                headers = [(''User-Agent'', USER_AGENT), (''Accept'', ''application/json''),
                           (''Content-Type'', ''application/json'')];
                params = AList.update ''api_key'' key (case params of None \<Rightarrow> [] | Some p \<Rightarrow> p)
            in if upper method = ''GET'' then
                 await_response net
                   \<lparr>req_verb = GET, req_url = url, req_headers = headers, req_params = params,
                    req_json = None, req_timeout = 30\<rparr>
               else if upper method = ''POST'' then
                 await_response net
                   \<lparr>req_verb = POST, req_url = url, req_headers = headers, req_params = params,
                    req_json = data, req_timeout = 30\<rparr>
               else (error_result (''Unsupported HTTP method: '' @ method), []))"

section \<open>The response formatters\<close>

definition format_food_summary :: "(json \<Rightarrow> string) \<Rightarrow> json \<Rightarrow> exn + string" where
  "format_food_summary rp food =
     and_then (py_get food ''description'' (JStr ''Unknown'')) (\<lambda>description.
     and_then (py_get food ''fdcId'' (JStr ''N/A'')) (\<lambda>fdcId.
     and_then (py_get food ''dataType'' (JStr ''Unknown'')) (\<lambda>dataType.
     and_then (py_get food ''brandOwner'' JNull) (\<lambda>given.
     and_then (if truthy given then py_get food ''brandOwner'' (JStr ''N/A'')
               else Inr (JStr ''Generic'')) (\<lambda>brand.
     and_then (py_get food ''publishedDate'' (JStr ''N/A'')) (\<lambda>publishedDate.
       Inr (''Food: '' @ py_str rp description @
            ''\<newline>FDC ID: '' @ py_str rp fdcId @
            ''\<newline>Data Type: '' @ py_str rp dataType @
            ''\<newline>Brand: '' @ py_str rp brand @
            ''\<newline>Published: '' @ py_str rp publishedDate)))))))"

text \<open>
  The body of the nutrient loop, which the source writes three times (lines 80 to 84,
  160 to 164 and 206 to 210) and which differs only in the indentation: the text one
  entry adds, empty when \<^verbatim>\<open>amount and amount > 0\<close> is false.
\<close>

definition nutrient_text :: "(json \<Rightarrow> string) \<Rightarrow> string \<Rightarrow> json \<Rightarrow> exn + string" where
  "nutrient_text rp indent nutrient =
     and_then (py_get nutrient ''nutrient'' (JObj [])) (\<lambda>inner.
     and_then (py_get inner ''name'' (JStr ''Unknown'')) (\<lambda>name.
     and_then (py_get nutrient ''amount'' (JInt 0)) (\<lambda>amount.
     and_then (py_get inner ''unitName'' (JStr [])) (\<lambda>unit.
     and_then (if truthy amount then py_gt amount 0 else Inr False) (\<lambda>shown.
       Inr (if shown
            then indent @ py_str rp name @ '': '' @ py_str rp amount @ '' '' @ py_str rp unit @
                 ''\<newline>''
            else []))))))"

fun add_nutrients :: "(json \<Rightarrow> string) \<Rightarrow> string \<Rightarrow> json list \<Rightarrow> string \<Rightarrow> exn + string" where
  "add_nutrients rp indent [] details = Inr details"
| "add_nutrients rp indent (nutrient # rest) details =
     and_then (nutrient_text rp indent nutrient) (\<lambda>line.
       add_nutrients rp indent rest (details @ line))"

definition format_food_details :: "(json \<Rightarrow> string) \<Rightarrow> json \<Rightarrow> exn + string" where
  "format_food_details rp food =
     and_then (py_get food ''description'' (JStr ''Unknown'')) (\<lambda>description.
     and_then (py_get food ''fdcId'' (JStr ''N/A'')) (\<lambda>fdcId.
     and_then (py_get food ''dataType'' (JStr ''Unknown'')) (\<lambda>dataType.
     and_then (py_get food ''foodCategory'' (JObj [])) (\<lambda>foodCategory.
     and_then (py_get foodCategory ''description'' (JStr ''N/A'')) (\<lambda>category.
     and_then (py_get food ''brandOwner'' JNull) (\<lambda>brandOwner.
     and_then (py_get food ''ingredients'' JNull) (\<lambda>ingredients.
     and_then (py_get food ''foodNutrients'' JNull) (\<lambda>foodNutrients.
       let details =
             ''Food: '' @ py_str rp description @
             ''\<newline>FDC ID: '' @ py_str rp fdcId @
             ''\<newline>Data Type: '' @ py_str rp dataType @
             ''\<newline>Category: '' @ py_str rp category @ ''\<newline>'' @
             (if truthy brandOwner then ''Brand: '' @ py_str rp brandOwner @ ''\<newline>'' else []) @
             (if truthy ingredients
              then ''Ingredients: '' @ py_str rp ingredients @ ''\<newline>'' else [])
       in if truthy foodNutrients then
            and_then (sliced 10 foodNutrients) (\<lambda>nutrients.
              add_nutrients rp ''  '' nutrients
                (details @ ''\<newline>Nutritional Information (per 100g):\<newline>''))
          else Inr details))))))))"

section \<open>The tool handlers\<close>

text \<open>
  A handler returns the text it answers with (or the exception it lets escape) and the
  requests that reached the network. Each is written as the source has it: the
  validation of the arguments, the one mediator call, and the rendering of the result.
\<close>

text \<open>\<^verbatim>\<open>not result or "error" in result\<close>, and the text the handlers answer with then.\<close>

definition failed :: "json \<Rightarrow> exn + bool" where
  "failed result = (if \<not> truthy result then Inr True else py_in ''error'' result)"

definition failure_text :: "(json \<Rightarrow> string) \<Rightarrow> string \<Rightarrow> json \<Rightarrow> exn + string" where
  "failure_text rp prefix result =
     and_then (py_get result ''error'' (JStr ''Unknown error'')) (\<lambda>message.
       Inr (prefix @ py_str rp message))"

subsection \<open>\<^verbatim>\<open>search_foods\<close>\<close>

definition valid_types :: "string list" where
  "valid_types = [''Foundation'', ''Branded'', ''Survey (FNDDS)'', ''Legacy'', ''Experimental'']"

text \<open>Lines 92 to 103: the request body, or the message of the early return.\<close>

definition search_data :: "string \<Rightarrow> string option \<Rightarrow> int \<Rightarrow> string + (string \<times> json) list" where
  "search_data query data_type page_size =
     (let body = [(''query'', JStr query), (''pageSize'', JInt (min page_size 50)),
                  (''pageNumber'', JInt 1)]
      in case data_type of
           None \<Rightarrow> Inr body
         | Some t \<Rightarrow>
             if t = [] then Inr body
             else if t \<in> set valid_types then Inr (body @ [(''dataType'', JArr [JStr t])])
             else Inl (''Invalid data type. Valid options: '' @ join '', '' valid_types))"

fun format_all :: "(json \<Rightarrow> string) \<Rightarrow> json list \<Rightarrow> exn + string list" where
  "format_all rp [] = Inr []"
| "format_all rp (food # foods) =
     and_then (format_food_summary rp food) (\<lambda>s.
     and_then (format_all rp foods) (\<lambda>ss. Inr (s # ss)))"

text \<open>Lines 107 to 124.\<close>

definition search_summary :: "(json \<Rightarrow> string) \<Rightarrow> json \<Rightarrow> exn + string" where
  "search_summary rp result =
     and_then (failed result) (\<lambda>failure.
       if failure then failure_text rp ''Search failed: '' result
       else
         and_then (py_get result ''foods'' JNull) (\<lambda>foods.
           if \<not> truthy foods then Inr ''No foods found for your search query.''
           else
             and_then (py_len foods) (\<lambda>n.
             and_then (py_get result ''totalHits'' (JInt (int n))) (\<lambda>total.
             and_then (sliced 10 foods) (\<lambda>top.
             and_then (format_all rp top) (\<lambda>search_results.
               let shown = int (length search_results);
                   summary = ''Found '' @ py_str rp total @ '' foods. Showing top '' @
                             str_int shown @ '' results:\<newline>\<newline>'' @
                             join ''\<newline>---\<newline>'' search_results
               in and_then (py_gt total shown) (\<lambda>more.
                    if more then
                      and_then (py_minus total shown) (\<lambda>remaining.
                        Inr (summary @ ''\<newline>\<newline>... and '' @ py_str rp remaining @
                             '' more results.''))
                    else Inr summary)))))))"

definition search_foods ::
  "(json \<Rightarrow> string) \<Rightarrow> string option \<Rightarrow> (request \<Rightarrow> response) \<Rightarrow>
   string \<Rightarrow> string option \<Rightarrow> int \<Rightarrow> (exn + string) \<times> request list" where
  "search_foods rp API_KEY net query data_type page_size =
     (case search_data query data_type page_size of
        Inl message \<Rightarrow> (Inr message, [])
      | Inr body \<Rightarrow>
          (case make_fdc_request API_KEY net ''foods/search'' ''POST'' None (Some (JObj body)) of
             (result, calls) \<Rightarrow> (search_summary rp result, calls)))"

subsection \<open>\<^verbatim>\<open>get_food_details\<close>\<close>

definition get_food_details ::
  "(json \<Rightarrow> string) \<Rightarrow> string option \<Rightarrow> (request \<Rightarrow> response) \<Rightarrow> int \<Rightarrow>
   (exn + string) \<times> request list" where
  "get_food_details rp API_KEY net fdc_id =
     (case make_fdc_request API_KEY net (''food/'' @ str_int fdc_id) ''GET'' None None of
        (result, calls) \<Rightarrow>
          (and_then (failed result) (\<lambda>failure.
             if failure then failure_text rp ''Failed to get food details: '' result
             else format_food_details rp result),
           calls))"

subsection \<open>\<^verbatim>\<open>get_food_nutrients\<close>\<close>

text \<open>Lines 141 to 148: the query parameters, or the message of the early return.\<close>

definition nutrient_params :: "string option \<Rightarrow> string + (string \<times> string) list" where
  "nutrient_params nutrient_ids =
     (case nutrient_ids of
        None \<Rightarrow> Inr []
      | Some s \<Rightarrow>
          if s = [] then Inr []
          else (case parse_ids s of
                  None \<Rightarrow>
                    Inl ''Invalid nutrient IDs. Provide comma-separated numbers (e.g., '203,204,208')''
                | Some ids \<Rightarrow> Inr [(''nutrients'', join '','' (map str_int ids))]))"

text \<open>Lines 152 to 168.\<close>

definition nutrients_info :: "(json \<Rightarrow> string) \<Rightarrow> int \<Rightarrow> json \<Rightarrow> exn + string" where
  "nutrients_info rp fdc_id result =
     and_then (failed result) (\<lambda>failure.
       if failure then failure_text rp ''Failed to get nutrient data: '' result
       else
         and_then (py_get result ''description'' (JStr ''Unknown Food'')) (\<lambda>food_name.
         and_then (py_get result ''foodNutrients'' JNull) (\<lambda>foodNutrients.
           let info = ''Nutrient information for '' @ py_str rp food_name @ '' (FDC ID: '' @
                      str_int fdc_id @ ''):\<newline>\<newline>''
           in if truthy foodNutrients then
                and_then (items foodNutrients) (\<lambda>nutrients. add_nutrients rp [] nutrients info)
              else Inr (info @ ''No nutrient data available.''))))"

definition get_food_nutrients ::
  "(json \<Rightarrow> string) \<Rightarrow> string option \<Rightarrow> (request \<Rightarrow> response) \<Rightarrow> int \<Rightarrow> string option \<Rightarrow>
   (exn + string) \<times> request list" where
  "get_food_nutrients rp API_KEY net fdc_id nutrient_ids =
     (case nutrient_params nutrient_ids of
        Inl message \<Rightarrow> (Inr message, [])
      | Inr params \<Rightarrow>
          (case make_fdc_request API_KEY net (''food/'' @ str_int fdc_id) ''GET'' (Some params) None of
             (result, calls) \<Rightarrow> (nutrients_info rp fdc_id result, calls)))"

subsection \<open>\<^verbatim>\<open>compare_foods\<close>\<close>

text \<open>Lines 174 to 188: the request body, or the message of the early return.\<close>

definition request_data :: "string \<Rightarrow> string option \<Rightarrow> string + (string \<times> json) list" where
  "request_data fdc_ids nutrient_ids =
     (case parse_ids fdc_ids of
        None \<Rightarrow> Inl ''Invalid FDC IDs. Provide comma-separated numbers (e.g., '123456,789012')''
      | Some ids \<Rightarrow>
          if 5 < length ids then Inl ''Maximum 5 foods can be compared at once.''
          else
            (case nutrient_ids of
               None \<Rightarrow> Inr [(''fdcIds'', JArr (map JInt ids))]
             | Some s \<Rightarrow>
                 if s = [] then Inr [(''fdcIds'', JArr (map JInt ids))]
                 else (case parse_ids s of
                         None \<Rightarrow> Inl ''Invalid nutrient IDs. Provide comma-separated numbers.''
                       | Some nutrients \<Rightarrow>
                           Inr [(''fdcIds'', JArr (map JInt ids)),
                                (''nutrients'', JArr (map JInt nutrients))])))"

text \<open>Lines 201 to 212: the loop over the foods, \<open>comparison\<close> being the text so far.\<close>

fun add_foods :: "(json \<Rightarrow> string) \<Rightarrow> json list \<Rightarrow> string \<Rightarrow> exn + string" where
  "add_foods rp [] comparison = Inr comparison"
| "add_foods rp (food # foods) comparison =
     and_then (py_get food ''description'' (JStr ''Unknown'')) (\<lambda>description.
     and_then (py_get food ''fdcId'' JNull) (\<lambda>fdcId.
     and_then (py_get food ''foodNutrients'' JNull) (\<lambda>foodNutrients.
     and_then
       (let heading = comparison @ ''=== '' @ py_str rp description @ '' (ID: '' @
                      py_str rp fdcId @ '') ===\<newline>''
        in if truthy foodNutrients then
             and_then (sliced 8 foodNutrients) (\<lambda>nutrients.
               add_nutrients rp ''  '' nutrients heading)
           else Inr heading) (\<lambda>block.
       add_foods rp foods (block @ ''\<newline>'')))))"

text \<open>Lines 192 to 214.\<close>

definition comparison_text :: "(json \<Rightarrow> string) \<Rightarrow> json \<Rightarrow> exn + string" where
  "comparison_text rp result =
     and_then (failed result) (\<lambda>failure.
       if failure then failure_text rp ''Failed to compare foods: '' result
       else
         (let foods = (case result of JArr xs \<Rightarrow> xs | _ \<Rightarrow> [])
          in if foods = [] then Inr ''No food data found for the provided IDs.''
             else add_foods rp foods ''Food Comparison:\<newline>\<newline>''))"

definition compare_foods ::
  "(json \<Rightarrow> string) \<Rightarrow> string option \<Rightarrow> (request \<Rightarrow> response) \<Rightarrow> string \<Rightarrow> string option \<Rightarrow>
   (exn + string) \<times> request list" where
  "compare_foods rp API_KEY net fdc_ids nutrient_ids =
     (case request_data fdc_ids nutrient_ids of
        Inl message \<Rightarrow> (Inr message, [])
      | Inr body \<Rightarrow>
          (case make_fdc_request API_KEY net ''foods'' ''POST'' None (Some (JObj body)) of
             (result, calls) \<Rightarrow> (comparison_text rp result, calls)))"

section \<open>The data model and sample inputs\<close>

text \<open>
  The source types a food as a plain \<^verbatim>\<open>dict\<close>. The shape of the records is the one of
  the data model of the specification. A \<open>FoodRecord\<close> is a JSON object whose
  \<^verbatim>\<open>foodCategory\<close>, when present, is an object and whose \<^verbatim>\<open>foodNutrients\<close>, when
  present, is a sequence of nutrient entries; a \<open>NutrientEntry\<close> is an object whose
  nested \<^verbatim>\<open>nutrient\<close>, when present, is an object and whose \<^verbatim>\<open>amount\<close>, when present,
  is a number or null. Every field may be missing, and the fields that are only printed
  (description, identifier, data type, brand, ingredients, date, names, units) may hold
  any value. \<open>members\<close> are the items of an object.
\<close>

definition members :: "json \<Rightarrow> (string \<times> json) list" where
  "members v = (case v of JObj kvs \<Rightarrow> kvs | _ \<Rightarrow> [])"

fun is_object :: "json \<Rightarrow> bool" where
  "is_object (JObj kvs) = True"
| "is_object _ = False"

fun is_amount :: "json \<Rightarrow> bool" where
  "is_amount JNull = True"
| "is_amount (JInt i) = True"
| "is_amount (JFloat q) = True"
| "is_amount _ = False"

definition NutrientEntry :: "json \<Rightarrow> bool" where
  "NutrientEntry e =
     (is_object e \<and>
      (case map_of (members e) ''nutrient'' of None \<Rightarrow> True | Some i \<Rightarrow> is_object i) \<and>
      (case map_of (members e) ''amount'' of None \<Rightarrow> True | Some a \<Rightarrow> is_amount a))"

fun nutrient_entries :: "json \<Rightarrow> bool" where
  "nutrient_entries (JArr ns) = list_all NutrientEntry ns"
| "nutrient_entries _ = False"

definition FoodRecord :: "json \<Rightarrow> bool" where
  "FoodRecord food =
     (is_object food \<and>
      (case map_of (members food) ''foodCategory'' of None \<Rightarrow> True | Some c \<Rightarrow> is_object c) \<and>
      (case map_of (members food) ''foodNutrients'' of None \<Rightarrow> True | Some ns \<Rightarrow> nutrient_entries ns))"

text \<open>
  A field as the formatters print it: its value, or the placeholder when the record
  does not have it.
\<close>

definition printed :: "(json \<Rightarrow> string) \<Rightarrow> (string \<times> json) list \<Rightarrow> string \<Rightarrow> string \<Rightarrow> string" where
  "printed rp f k placeholder = (case map_of f k of None \<Rightarrow> placeholder | Some v \<Rightarrow> py_str rp v)"

definition present :: "(string \<times> json) list \<Rightarrow> string \<Rightarrow> bool" where
  "present f k = (case map_of f k of None \<Rightarrow> False | Some v \<Rightarrow> truthy v)"

text \<open>
  \<^verbatim>\<open>v.get(k, {})\<close> as a list of items, for a \<open>v\<close> and a value that are objects. The name
  and the unit of a nutrient entry are fields of its nested \<^verbatim>\<open>nutrient\<close>; its amount
  is 0 when it has none (lines 80 to 82).
\<close>

definition nested :: "json \<Rightarrow> string \<Rightarrow> (string \<times> json) list" where
  "nested v k = (case map_of (members v) k of None \<Rightarrow> [] | Some i \<Rightarrow> members i)"

definition entry_amount :: "json \<Rightarrow> json" where
  "entry_amount e = (case map_of (members e) ''amount'' of None \<Rightarrow> JInt 0 | Some a \<Rightarrow> a)"

fun positive :: "json \<Rightarrow> bool" where
  "positive (JInt i) = (0 < i)"
| "positive (JFloat q) = (0 < q)"
| "positive _ = False"

definition positive_amount :: "json \<Rightarrow> bool" where
  "positive_amount e = positive (entry_amount e)"

text \<open>The line of an entry: "name: amount unit".\<close>

definition entry_line :: "(json \<Rightarrow> string) \<Rightarrow> json \<Rightarrow> string" where
  "entry_line rp e =
     printed rp (nested e ''nutrient'') ''name'' ''Unknown'' @ '': '' @ py_str rp (entry_amount e) @
     '' '' @ printed rp (nested e ''nutrient'') ''unitName'' [] @ ''\<newline>''"

text \<open>A handler answers with a text that contains a phrase.\<close>

definition answers_with :: "string \<Rightarrow> exn + string \<Rightarrow> bool" where
  "answers_with phrase r = (case r of Inl e \<Rightarrow> False | Inr s \<Rightarrow> contains phrase s)"

text \<open>An argument that is a comma-separated list of integers, and one that is not.\<close>

definition malformed :: "string \<Rightarrow> bool" where
  "malformed s = list_ex (\<lambda>piece. py_int (strip piece) = None) (split_comma s)"

text \<open>
  The arguments the handlers accept: an optional list of ids that is absent, empty or
  made of integers, and an optional data type that is absent, empty or one of the five.
\<close>

definition well_formed :: "string option \<Rightarrow> bool" where
  "well_formed arg = (case arg of None \<Rightarrow> True | Some s \<Rightarrow> s = [] \<or> \<not> malformed s)"

definition accepted_type :: "string option \<Rightarrow> bool" where
  "accepted_type data_type =
     (case data_type of None \<Rightarrow> True | Some t \<Rightarrow> t = [] \<or> t \<in> set valid_types)"

text \<open>
  Sample inputs: a \<^verbatim>\<open>repr\<close> that knows the float 5.2, an upstream that answers every
  request with one payload, and nutrient entries.
\<close>

definition sample_repr :: "json \<Rightarrow> string" where
  "sample_repr v = (if v = JFloat (26 / 5) then ''5.2'' else ''?'')"

definition upstream :: "json \<Rightarrow> request \<Rightarrow> response" where
  "upstream payload req = Json payload"

definition entry :: "string \<Rightarrow> json \<Rightarrow> json" where
  "entry name amount =
     JObj [(''nutrient'', JObj [(''name'', JStr name), (''unitName'', JStr ''g'')]),
           (''amount'', amount)]"

text \<open>Two entries: protein with amount 0 and fat with amount 5.2.\<close>

definition two :: "json list" where
  "two = [entry ''Protein'' (JInt 0), entry ''Fat'' (JFloat (26 / 5))]"

text \<open>Eleven entries: the first has amount 0, the other ten a positive amount.\<close>

definition eleven :: "json list" where
  "eleven = entry ''Water'' (JInt 0) # replicate 9 (entry ''Fat'' (JInt 5)) @ [entry ''Zinc'' (JInt 3)]"

section \<open>Properties of the mediator\<close>

lemma make_fdc_request_no_key:
  "\<not> truthy_str key \<Longrightarrow>
   make_fdc_request key net endpoint method params data =
     (error_result ''API key not set. Use set_api_key tool first.'', [])"
  by (cases key) (simp_all add: make_fdc_request_def)

lemma make_fdc_request_unsupported:
  assumes "upper method \<noteq> ''GET''" and "upper method \<noteq> ''POST''"
  shows "make_fdc_request (Some key) net endpoint method params data =
     (if key = [] then error_result ''API key not set. Use set_api_key tool first.''
      else error_result (''Unsupported HTTP method: '' @ method), [])"
  using assms by (simp add: make_fdc_request_def Let_def)

lemma make_fdc_request_post:
  "key \<noteq> [] \<Longrightarrow>
   make_fdc_request (Some key) net endpoint ''POST'' None data =
     await_response net
       \<lparr>req_verb = POST, req_url = FDC_API_BASE @ ''/'' @ lstrip_slash endpoint,
        req_headers = [(''User-Agent'', USER_AGENT), (''Accept'', ''application/json''),
                       (''Content-Type'', ''application/json'')],
        req_params = [(''api_key'', key)], req_json = data, req_timeout = 30\<rparr>"
  by (simp add: make_fdc_request_def Let_def upper_def upper_char_def)

lemma make_fdc_request_get:
  "key \<noteq> [] \<Longrightarrow>
   make_fdc_request (Some key) net endpoint ''GET'' params None =
     await_response net
       \<lparr>req_verb = GET, req_url = FDC_API_BASE @ ''/'' @ lstrip_slash endpoint,
        req_headers = [(''User-Agent'', USER_AGENT), (''Accept'', ''application/json''),
                       (''Content-Type'', ''application/json'')],
        req_params = AList.update ''api_key'' key (case params of None \<Rightarrow> [] | Some p \<Rightarrow> p),
        req_json = None, req_timeout = 30\<rparr>"
  by (simp add: make_fdc_request_def Let_def upper_def upper_char_def)

text \<open>
  C8, as amended. The method is compared after \<^verbatim>\<open>upper()\<close>, and the credential is
  checked before it. For every mediator call whose method in upper case is neither GET
  nor POST, the mediator returns an error result and issues no network request; when the
  credential is present, the error names the method as it was passed.
\<close>

theorem unsupported_method_is_error:
  assumes "upper method \<noteq> ''GET''" and "upper method \<noteq> ''POST''"
  shows "snd (make_fdc_request key net endpoint method params data) = [] \<and>
         (\<exists>message. fst (make_fdc_request key net endpoint method params data) =
                      error_result message) \<and>
         (truthy_str key \<longrightarrow>
            fst (make_fdc_request key net endpoint method params data) =
              error_result (''Unsupported HTTP method: '' @ method))"
proof (cases key)
  case None
  then show ?thesis by (auto simp add: make_fdc_request_no_key)
next
  case (Some k)
  then show ?thesis using make_fdc_request_unsupported [OF assms] by auto
qed

theorem unsupported_method_is_error_witness:
  "upper ''PUT'' \<noteq> ''GET'' \<and> upper ''PUT'' \<noteq> ''POST'' \<and> truthy_str (Some ''k'') \<and>
   make_fdc_request (Some ''k'') (upstream JNull) ''foods'' ''PUT'' None None =
     (error_result ''Unsupported HTTP method: PUT'', [])"
proof -
  have m: "upper ''PUT'' \<noteq> ''GET''" "upper ''PUT'' \<noteq> ''POST''"
    by (simp_all add: upper_def upper_char_def)
  from unsupported_method_is_error [OF m, of "Some ''k''" "upstream JNull" "''foods''" None None]
  show ?thesis using m by (simp add: prod_eq_iff)
qed

text \<open>
  The claim as stated fails twice: the method \<^verbatim>\<open>get\<close> is not the value GET and its
  request is issued, and without a credential the error for PUT names no method.
\<close>

theorem unsupported_method_counterexample:
  "snd (make_fdc_request (Some ''k'') (upstream JNull) ''foods'' ''get'' None None) \<noteq> [] \<and>
   fst (make_fdc_request None (upstream JNull) ''foods'' ''PUT'' None None) \<noteq>
     error_result ''Unsupported HTTP method: PUT''"
  by (simp add: make_fdc_request_def Let_def upper_def upper_char_def await_response_def
      error_result_def)

section \<open>Properties of the handlers\<close>

subsection \<open>Auxiliary facts\<close>

lemma failed_error_result: "failed (error_result m) = Inr True"
  by (simp add: failed_def error_result_def)

lemma failure_text_error_result: "failure_text rp p (error_result m) = Inr (p @ m)"
  by (simp add: failure_text_def error_result_def and_then_def)

lemma failed_error_key: "map_of payload ''error'' = Some v \<Longrightarrow> failed (JObj payload) = Inr True"
  by (auto simp add: failed_def)

lemma failure_text_error_key:
  "map_of payload ''error'' = Some v \<Longrightarrow> failure_text rp p (JObj payload) = Inr (p @ py_str rp v)"
  by (simp add: failure_text_def and_then_def)

lemma parse_all_None: "parse_all ps = None \<longleftrightarrow> list_ex (\<lambda>piece. py_int (strip piece) = None) ps"
  by (induction ps) (auto split: option.splits)

lemma parse_all_length: "parse_all ps = Some ids \<Longrightarrow> length ids = length ps"
  by (induction ps arbitrary: ids) (auto split: option.splits)

lemma parse_ids_None: "parse_ids s = None \<longleftrightarrow> malformed s"
  by (simp add: parse_ids_def malformed_def parse_all_None)

lemma parse_ids_Some:
  "\<not> malformed s \<Longrightarrow> \<exists>ids. parse_ids s = Some ids \<and> length ids = length (split_comma s)"
  using parse_ids_None [of s] parse_all_length [of "split_comma s"]
  by (auto simp add: parse_ids_def)

lemma search_data_accepted:
  "accepted_type dt \<Longrightarrow> \<exists>body. search_data q dt ps = Inr body \<and> map_of body ''pageSize'' = Some (JInt (min ps 50))"
  by (auto simp add: accepted_type_def search_data_def Let_def split: option.splits)

lemma search_data_rejected:
  "\<not> accepted_type dt \<Longrightarrow> search_data q dt ps = Inl (''Invalid data type. Valid options: Foundation, Branded, Survey (FNDDS), Legacy, Experimental'')"
  by (auto simp add: accepted_type_def search_data_def Let_def valid_types_def split: option.splits)

lemma nutrient_params_rejected:
  "ns = Some s \<Longrightarrow> s \<noteq> [] \<Longrightarrow> malformed s \<Longrightarrow> nutrient_params ns = Inl ''Invalid nutrient IDs. Provide comma-separated numbers (e.g., '203,204,208')''"
  by (simp add: nutrient_params_def parse_ids_None [symmetric])

lemma nutrient_params_accepted:
  "well_formed ns \<Longrightarrow> \<exists>params. nutrient_params ns = Inr params"
  using parse_ids_None by (auto simp add: well_formed_def nutrient_params_def split: option.splits)

lemma request_data_accepted:
  assumes "\<not> malformed fdc_ids" and "length (split_comma fdc_ids) \<le> 5" and "well_formed ns"
  shows "\<exists>body. request_data fdc_ids ns = Inr body"
proof -
  from parse_ids_Some [OF assms(1)] obtain ids
    where ids: "parse_ids fdc_ids = Some ids" "length ids = length (split_comma fdc_ids)"
    by blast
  show ?thesis
  proof (cases ns)
    case None
    then show ?thesis using ids assms(2) by (simp add: request_data_def)
  next
    case (Some s)
    show ?thesis
    proof (cases "s = []")
      case True
      with Some ids assms(2) show ?thesis by (simp add: request_data_def)
    next
      case False
      with Some assms(3) have "\<not> malformed s" by (simp add: well_formed_def)
      then obtain nutrients where "parse_ids s = Some nutrients"
        using parse_ids_Some by blast
      with Some False ids assms(2) show ?thesis by (simp add: request_data_def)
    qed
  qed
qed

lemma search_foods_no_key:
  "\<not> truthy_str key \<Longrightarrow> search_data q dt ps = Inr body \<Longrightarrow>
   search_foods rp key net q dt ps = (Inr ''Search failed: API key not set. Use set_api_key tool first.'', [])"
  by (simp add: search_foods_def make_fdc_request_no_key search_summary_def failed_error_result and_then_def failure_text_error_result)

lemma get_food_details_no_key:
  "\<not> truthy_str key \<Longrightarrow>
   get_food_details rp key net i = (Inr ''Failed to get food details: API key not set. Use set_api_key tool first.'', [])"
  by (simp add: get_food_details_def make_fdc_request_no_key failed_error_result and_then_def failure_text_error_result)

lemma get_food_nutrients_no_key:
  "\<not> truthy_str key \<Longrightarrow> nutrient_params ns = Inr params \<Longrightarrow>
   get_food_nutrients rp key net i ns = (Inr ''Failed to get nutrient data: API key not set. Use set_api_key tool first.'', [])"
  by (simp add: get_food_nutrients_def make_fdc_request_no_key nutrients_info_def failed_error_result and_then_def failure_text_error_result)

lemma compare_foods_no_key:
  "\<not> truthy_str key \<Longrightarrow> request_data ids ns = Inr body \<Longrightarrow>
   compare_foods rp key net ids ns = (Inr ''Failed to compare foods: API key not set. Use set_api_key tool first.'', [])"
  by (simp add: compare_foods_def make_fdc_request_no_key comparison_text_def failed_error_result and_then_def failure_text_error_result)

lemma no_key_no_calls:
  assumes "\<not> truthy_str key"
  shows "snd (search_foods rp key net q dt ps) = []"
    and "snd (get_food_details rp key net i) = []"
    and "snd (get_food_nutrients rp key net i ns) = []"
    and "snd (compare_foods rp key net ids ns') = []"
  using assms
  by (simp_all add: search_foods_def get_food_details_def get_food_nutrients_def compare_foods_def
      make_fdc_request_no_key split: sum.splits)

subsection \<open>The missing credential\<close>

text \<open>
  C1, as amended. Every handler validates its arguments before it calls the mediator,
  so a call with rejected arguments answers with the validation message. When the
  credential is absent (\<^verbatim>\<open>None\<close> or empty), no data-fetching handler issues a network
  call, whatever its arguments; \<^verbatim>\<open>get_food_details\<close> answers with a text containing
  "API key not set", and so do \<^verbatim>\<open>search_foods\<close>, \<^verbatim>\<open>get_food_nutrients\<close> and
  \<^verbatim>\<open>compare_foods\<close> when their arguments pass their validation.
\<close>

theorem missing_credential:
  assumes "\<not> truthy_str key"
  shows "snd (search_foods rp key net q dt ps) = [] \<and>
         snd (get_food_details rp key net i) = [] \<and>
         snd (get_food_nutrients rp key net i ns) = [] \<and>
         snd (compare_foods rp key net ids ns') = [] \<and>
         answers_with ''API key not set'' (fst (get_food_details rp key net i)) \<and>
         (accepted_type dt \<longrightarrow>
            answers_with ''API key not set'' (fst (search_foods rp key net q dt ps))) \<and>
         (well_formed ns \<longrightarrow>
            answers_with ''API key not set'' (fst (get_food_nutrients rp key net i ns))) \<and>
         (\<not> malformed ids \<and> length (split_comma ids) \<le> 5 \<and> well_formed ns' \<longrightarrow>
            answers_with ''API key not set'' (fst (compare_foods rp key net ids ns')))"
proof -
  have details: "answers_with ''API key not set'' (fst (get_food_details rp key net i))"
    using assms by (simp add: get_food_details_no_key answers_with_def)
  have search: "answers_with ''API key not set'' (fst (search_foods rp key net q dt ps))"
    if "accepted_type dt"
  proof -
    from that obtain body where "search_data q dt ps = Inr body"
      using search_data_accepted by blast
    with assms show ?thesis by (simp add: search_foods_no_key answers_with_def)
  qed
  have nutrients: "answers_with ''API key not set'' (fst (get_food_nutrients rp key net i ns))"
    if "well_formed ns"
  proof -
    from that obtain params where "nutrient_params ns = Inr params"
      using nutrient_params_accepted by blast
    with assms show ?thesis by (simp add: get_food_nutrients_no_key answers_with_def)
  qed
  have compare: "answers_with ''API key not set'' (fst (compare_foods rp key net ids ns'))"
    if "\<not> malformed ids" and "length (split_comma ids) \<le> 5" and "well_formed ns'"
  proof -
    from that obtain body where "request_data ids ns' = Inr body"
      using request_data_accepted by blast
    with assms show ?thesis by (simp add: compare_foods_no_key answers_with_def)
  qed
  show ?thesis
    using no_key_no_calls [OF assms] details search nutrients compare by blast
qed

theorem missing_credential_witness:
  "\<not> truthy_str None \<and> accepted_type (Some ''Branded'') \<and> well_formed (Some ''203,204'') \<and>
   \<not> malformed ''1,2'' \<and> length (split_comma ''1,2'') \<le> 5 \<and> well_formed None \<and>
   snd (search_foods sample_repr None (upstream JNull) ''apple'' (Some ''Branded'') 25) = [] \<and>
   snd (get_food_details sample_repr None (upstream JNull) 1) = [] \<and>
   snd (get_food_nutrients sample_repr None (upstream JNull) 1 (Some ''203,204'')) = [] \<and>
   snd (compare_foods sample_repr None (upstream JNull) ''1,2'' None) = [] \<and>
   answers_with ''API key not set''
     (fst (search_foods sample_repr None (upstream JNull) ''apple'' (Some ''Branded'') 25)) \<and>
   answers_with ''API key not set'' (fst (get_food_details sample_repr None (upstream JNull) 1)) \<and>
   answers_with ''API key not set''
     (fst (get_food_nutrients sample_repr None (upstream JNull) 1 (Some ''203,204''))) \<and>
   answers_with ''API key not set''
     (fst (compare_foods sample_repr None (upstream JNull) ''1,2'' None))"
proof -
  have key: "\<not> truthy_str None" by simp
  have args: "accepted_type (Some ''Branded'')" "well_formed (Some ''203,204'')"
    "\<not> malformed ''1,2''" "length (split_comma ''1,2'') \<le> 5" "well_formed None"
    by code_simp+
  from missing_credential [OF key, of sample_repr "upstream JNull" "''apple''" "Some ''Branded''" 25 1
      "Some ''203,204''" "''1,2''" None] key args
  show ?thesis by blast
qed

text \<open>
  The claim as stated fails on a call that validation rejects: without a credential,
  \<^verbatim>\<open>search_foods\<close> with the data type "Fruit" answers with the list of valid types.
\<close>

theorem missing_credential_counterexample:
  "\<not> answers_with ''API key not set''
      (fst (search_foods sample_repr None (upstream JNull) ''apple'' (Some ''Fruit'') 25))"
  by (simp add: search_foods_def search_data_def valid_types_def answers_with_def)

subsection \<open>The arguments of \<^verbatim>\<open>search_foods\<close>\<close>

lemma await_response_json: "net req = Json v \<Longrightarrow> await_response net req = (v, [req])"
  by (simp add: await_response_def)

lemma search_data_page_size:
  "search_data q dt ps = Inr body \<Longrightarrow> map_of body ''pageSize'' = Some (JInt (min ps 50))"
  by (auto simp add: search_data_def Let_def split: option.splits if_splits)

text \<open>
  C4. Every request that \<^verbatim>\<open>search_foods\<close> sends carries \<^verbatim>\<open>min(page_size, 50)\<close> as the
  \<^verbatim>\<open>pageSize\<close> of its body, which is 50 when \<^verbatim>\<open>page_size\<close> exceeds 50; and with a
  credential and an accepted data type exactly one request is sent.
\<close>

theorem page_size_clamped:
  "(\<forall>r \<in> set (snd (search_foods rp key net q dt ps)).
      \<exists>body. req_json r = Some (JObj body) \<and>
             map_of body ''pageSize'' = Some (JInt (min ps 50))) \<and>
   (truthy_str key \<and> accepted_type dt \<longrightarrow>
      length (snd (search_foods rp key net q dt ps)) = 1)"
proof (cases "search_data q dt ps")
  case (Inl message)
  then have "\<not> accepted_type dt" using search_data_accepted [of dt q ps] by auto
  with Inl show ?thesis by (simp add: search_foods_def)
next
  case (Inr body)
  note size = search_data_page_size [OF Inr]
  show ?thesis
  proof (cases "truthy_str key")
    case False
    then show ?thesis using no_key_no_calls(1) [of key rp net q dt ps] by simp
  next
    case True
    then obtain k where k: "key = Some k" "k \<noteq> []" by (cases key) auto
    show ?thesis using Inr size k
      by (simp add: search_foods_def make_fdc_request_post await_response_def)
  qed
qed

theorem page_size_clamped_witness:
  "truthy_str (Some ''k'') \<and> accepted_type None \<and>
   (\<exists>r body. snd (search_foods sample_repr (Some ''k'') (upstream JNull) ''apple'' None 100) = [r] \<and>
      req_json r = Some (JObj body) \<and> map_of body ''pageSize'' = Some (JInt 50))"
proof -
  have args: "truthy_str (Some ''k'')" "accepted_type None" by code_simp+
  from page_size_clamped [of sample_repr "Some ''k''" "upstream JNull" "''apple''" None 100] args
  obtain r where r: "snd (search_foods sample_repr (Some ''k'') (upstream JNull) ''apple'' None 100) = [r]"
    and all: "\<forall>r \<in> set (snd (search_foods sample_repr (Some ''k'') (upstream JNull) ''apple'' None 100)).
      \<exists>body. req_json r = Some (JObj body) \<and> map_of body ''pageSize'' = Some (JInt (min 100 50))"
    by (auto simp add: length_Suc_conv)
  from all r have "\<exists>body. req_json r = Some (JObj body) \<and> map_of body ''pageSize'' = Some (JInt 50)"
    by simp
  with r args show ?thesis by blast
qed

text \<open>
  C5, as amended. The source tests \<^verbatim>\<open>if data_type:\<close>, so an empty string counts as no
  data type. For every call to \<^verbatim>\<open>search_foods\<close> whose \<^verbatim>\<open>data_type\<close> is a non-empty
  string that is not one of the five known values, the handler answers with the message
  that lists the five valid options, and no network call is made.
\<close>

theorem invalid_data_type_rejected:
  assumes "data_type = Some t" and "t \<noteq> []" and "t \<notin> set valid_types"
  shows "search_foods rp key net q data_type ps =
     (Inr ''Invalid data type. Valid options: Foundation, Branded, Survey (FNDDS), Legacy, Experimental'',
      [])"
  using assms search_data_rejected [of data_type q ps]
  by (simp add: search_foods_def accepted_type_def)

theorem invalid_data_type_rejected_witness:
  "''Fruit'' \<noteq> [] \<and> ''Fruit'' \<notin> set valid_types \<and>
   search_foods sample_repr (Some ''k'') (upstream JNull) ''apple'' (Some ''Fruit'') 25 =
     (Inr ''Invalid data type. Valid options: Foundation, Branded, Survey (FNDDS), Legacy, Experimental'',
      [])"
proof -
  have t: "''Fruit'' \<noteq> []" "''Fruit'' \<notin> set valid_types" by (simp_all add: valid_types_def)
  from invalid_data_type_rejected [OF refl t] t show ?thesis by blast
qed

text \<open>
  The claim as stated fails for the empty string: it is given and it is not one of
  the five values, yet the request is sent (without a data type filter).
\<close>

theorem invalid_data_type_counterexample:
  "[] \<notin> set valid_types \<and>
   snd (search_foods sample_repr (Some ''k'') (upstream JNull) ''apple'' (Some []) 25) \<noteq> []"
  by (simp add: valid_types_def search_foods_def search_data_def make_fdc_request_post
      await_response_def upstream_def)

subsection \<open>The arguments of \<^verbatim>\<open>compare_foods\<close> and \<^verbatim>\<open>get_food_nutrients\<close>\<close>

text \<open>
  C6. For every call to \<^verbatim>\<open>compare_foods\<close> whose \<^verbatim>\<open>fdc_ids\<close> splits into more than five
  pieces that all parse as integers, the handler answers with the "Maximum 5 foods"
  message and no network call is made.
\<close>

theorem too_many_foods:
  assumes "\<not> malformed fdc_ids" and "5 < length (split_comma fdc_ids)"
  shows "compare_foods rp key net fdc_ids nutrient_ids =
     (Inr ''Maximum 5 foods can be compared at once.'', [])"
proof -
  from parse_ids_Some [OF assms(1)] obtain ids
    where "parse_ids fdc_ids = Some ids" "length ids = length (split_comma fdc_ids)"
    by blast
  with assms(2) show ?thesis by (simp add: compare_foods_def request_data_def)
qed

theorem too_many_foods_witness:
  "\<not> malformed ''1,2,3,4,5,6'' \<and> 5 < length (split_comma ''1,2,3,4,5,6'') \<and>
   compare_foods sample_repr (Some ''k'') (upstream JNull) ''1,2,3,4,5,6'' None =
     (Inr ''Maximum 5 foods can be compared at once.'', [])"
proof -
  have ids: "\<not> malformed ''1,2,3,4,5,6''" "5 < length (split_comma ''1,2,3,4,5,6'')"
    by code_simp+
  from too_many_foods [OF ids] ids show ?thesis by blast
qed

text \<open>
  C7, as amended. \<^verbatim>\<open>nutrient_ids\<close> is parsed only under \<^verbatim>\<open>if nutrient_ids:\<close>, so an empty
  string counts as not given; \<^verbatim>\<open>fdc_ids\<close> is always parsed. If a non-empty
  \<^verbatim>\<open>nutrient_ids\<close> of \<^verbatim>\<open>get_food_nutrients\<close> has a piece that does not parse as an integer, the
  handler answers with its validation message; if \<^verbatim>\<open>fdc_ids\<close> of \<^verbatim>\<open>compare_foods\<close> has such a
  piece, the handler answers with the message about FDC ids; if a non-empty \<^verbatim>\<open>nutrient_ids\<close>
  of \<^verbatim>\<open>compare_foods\<close> has such a piece and \<^verbatim>\<open>fdc_ids\<close> parses, the handler answers with the
  message about nutrient ids, or with the "Maximum 5 foods" message when there are more
  than five ids. In each case no network call is made.
\<close>

theorem malformed_ids_rejected:
  "(nutrient_ids = Some s \<and> s \<noteq> [] \<and> malformed s \<longrightarrow>
      get_food_nutrients rp key net fdc_id nutrient_ids =
        (Inr ''Invalid nutrient IDs. Provide comma-separated numbers (e.g., '203,204,208')'', [])) \<and>
   (malformed bad_ids \<longrightarrow>
      compare_foods rp key net bad_ids any_ids =
        (Inr ''Invalid FDC IDs. Provide comma-separated numbers (e.g., '123456,789012')'', [])) \<and>
   (nutrient_ids = Some s \<and> s \<noteq> [] \<and> malformed s \<and> \<not> malformed fdc_ids \<longrightarrow>
      compare_foods rp key net fdc_ids nutrient_ids =
        (Inr (if 5 < length (split_comma fdc_ids) then ''Maximum 5 foods can be compared at once.''
              else ''Invalid nutrient IDs. Provide comma-separated numbers.''), []))"
proof (intro conjI impI)
  assume "nutrient_ids = Some s \<and> s \<noteq> [] \<and> malformed s"
  then show "get_food_nutrients rp key net fdc_id nutrient_ids =
        (Inr ''Invalid nutrient IDs. Provide comma-separated numbers (e.g., '203,204,208')'', [])"
    by (simp add: get_food_nutrients_def nutrient_params_rejected)
next
  assume "malformed bad_ids"
  then have "parse_ids bad_ids = None" by (simp add: parse_ids_None)
  then show "compare_foods rp key net bad_ids any_ids =
        (Inr ''Invalid FDC IDs. Provide comma-separated numbers (e.g., '123456,789012')'', [])"
    by (simp add: compare_foods_def request_data_def)
next
  assume a: "nutrient_ids = Some s \<and> s \<noteq> [] \<and> malformed s \<and> \<not> malformed fdc_ids"
  then have none: "parse_ids s = None" by (simp add: parse_ids_None)
  from a parse_ids_Some [of fdc_ids] obtain ids
    where "parse_ids fdc_ids = Some ids" "length ids = length (split_comma fdc_ids)"
    by blast
  with a none show "compare_foods rp key net fdc_ids nutrient_ids =
        (Inr (if 5 < length (split_comma fdc_ids) then ''Maximum 5 foods can be compared at once.''
              else ''Invalid nutrient IDs. Provide comma-separated numbers.''), [])"
    by (simp add: compare_foods_def request_data_def)
qed

theorem malformed_ids_rejected_witness:
  "''203,abc'' \<noteq> [] \<and> malformed ''203,abc'' \<and> malformed ''12,,13'' \<and> \<not> malformed ''12, 13'' \<and>
   get_food_nutrients sample_repr (Some ''k'') (upstream JNull) 12 (Some ''203,abc'') =
     (Inr ''Invalid nutrient IDs. Provide comma-separated numbers (e.g., '203,204,208')'', []) \<and>
   compare_foods sample_repr (Some ''k'') (upstream JNull) ''12,,13'' None =
     (Inr ''Invalid FDC IDs. Provide comma-separated numbers (e.g., '123456,789012')'', []) \<and>
   compare_foods sample_repr (Some ''k'') (upstream JNull) ''12, 13'' (Some ''203,abc'') =
     (Inr ''Invalid nutrient IDs. Provide comma-separated numbers.'', [])"
proof -
  have args: "''203,abc'' \<noteq> []" "malformed ''203,abc''" "malformed ''12,,13''"
    "\<not> malformed ''12, 13''" "\<not> 5 < length (split_comma ''12, 13'')"
    by code_simp+
  from malformed_ids_rejected [of "Some ''203,abc''" "''203,abc''" sample_repr "Some ''k''"
      "upstream JNull" 12 "''12,,13''" None "''12, 13''"] args
  show ?thesis by simp
qed

text \<open>
  The claim as stated fails for the empty string: its one piece is empty and does not
  parse, yet both handlers send their request.
\<close>

theorem malformed_ids_counterexample:
  "malformed [] \<and>
   snd (get_food_nutrients sample_repr (Some ''k'') (upstream JNull) 12 (Some [])) \<noteq> [] \<and>
   snd (compare_foods sample_repr (Some ''k'') (upstream JNull) ''12'' (Some [])) \<noteq> []"
proof -
  have "malformed []" by code_simp
  moreover have "parse_ids ''12'' = Some [12]" by code_simp
  ultimately show ?thesis
    by (simp add: get_food_nutrients_def nutrient_params_def compare_foods_def request_data_def
        make_fdc_request_get make_fdc_request_post await_response_def)
qed

subsection \<open>Payloads with an error key\<close>

lemma failed_payload:
  assumes "map_of payload ''error'' = Some v"
  shows "and_then (failed (JObj payload)) (\<lambda>failure.
           if failure then failure_text rp prefix (JObj payload) else other) =
         Inr (prefix @ py_str rp v)"
  using assms by (simp add: failed_error_key failure_text_error_key and_then_def)

text \<open>
  C10. When the upstream answers a handler's request with a mapping that has a top-level
  key "error" (whatever else it holds), the handler answers with its failure prefix
  followed by the value of that key, and formats nothing. The arguments are the ones
  the handler accepts and the credential is present, so that the request is made.
\<close>

theorem error_key_is_failure:
  assumes "truthy_str key" and "map_of payload ''error'' = Some v"
    and "\<forall>r. net r = Json (JObj payload)"
  shows "fst (get_food_details rp key net fdc_id) =
           Inr (''Failed to get food details: '' @ py_str rp v) \<and>
         (accepted_type data_type \<longrightarrow>
            fst (search_foods rp key net query data_type page_size) =
              Inr (''Search failed: '' @ py_str rp v)) \<and>
         (well_formed nutrient_ids \<longrightarrow>
            fst (get_food_nutrients rp key net fdc_id nutrient_ids) =
              Inr (''Failed to get nutrient data: '' @ py_str rp v)) \<and>
         (\<not> malformed fdc_ids \<and> length (split_comma fdc_ids) \<le> 5 \<and> well_formed nutrient_ids \<longrightarrow>
            fst (compare_foods rp key net fdc_ids nutrient_ids) =
              Inr (''Failed to compare foods: '' @ py_str rp v))"
proof -
  from assms(1) obtain k where k: "key = Some k" "k \<noteq> []" by (cases key) auto
  have net: "\<And>req. await_response net req = (JObj payload, [req])"
    using assms(3) by (simp add: await_response_json)
  have details: "fst (get_food_details rp key net fdc_id) =
      Inr (''Failed to get food details: '' @ py_str rp v)"
    using k by (simp add: get_food_details_def make_fdc_request_get net failed_payload [OF assms(2)])
  have search: "fst (search_foods rp key net query data_type page_size) =
      Inr (''Search failed: '' @ py_str rp v)" if "accepted_type data_type"
  proof -
    from that obtain body where "search_data query data_type page_size = Inr body"
      using search_data_accepted by blast
    then show ?thesis using k
      by (simp add: search_foods_def make_fdc_request_post net search_summary_def
          failed_payload [OF assms(2)])
  qed
  have nutrients: "fst (get_food_nutrients rp key net fdc_id nutrient_ids) =
      Inr (''Failed to get nutrient data: '' @ py_str rp v)" if "well_formed nutrient_ids"
  proof -
    from that obtain params where "nutrient_params nutrient_ids = Inr params"
      using nutrient_params_accepted by blast
    then show ?thesis using k
      by (simp add: get_food_nutrients_def make_fdc_request_get net nutrients_info_def
          failed_payload [OF assms(2)])
  qed
  have compare: "fst (compare_foods rp key net fdc_ids nutrient_ids) =
      Inr (''Failed to compare foods: '' @ py_str rp v)"
    if "\<not> malformed fdc_ids" and "length (split_comma fdc_ids) \<le> 5" and "well_formed nutrient_ids"
  proof -
    from that obtain body where "request_data fdc_ids nutrient_ids = Inr body"
      using request_data_accepted by blast
    then show ?thesis using k
      by (simp add: compare_foods_def make_fdc_request_post net comparison_text_def
          failed_payload [OF assms(2)])
  qed
  show ?thesis using details search nutrients compare by blast
qed

theorem error_key_is_failure_witness:
  "truthy_str (Some ''k'') \<and>
   map_of [(''foods'', JArr [JObj [(''description'', JStr ''Milk'')]]), (''error'', JStr ''none'')]
     ''error'' = Some (JStr ''none'') \<and>
   (\<forall>r. upstream (JObj [(''foods'', JArr [JObj [(''description'', JStr ''Milk'')]]),
                         (''error'', JStr ''none'')]) r =
        Json (JObj [(''foods'', JArr [JObj [(''description'', JStr ''Milk'')]]),
                    (''error'', JStr ''none'')])) \<and>
   accepted_type None \<and> well_formed None \<and> \<not> malformed ''12'' \<and> length (split_comma ''12'') \<le> 5 \<and>
   fst (get_food_details sample_repr (Some ''k'')
          (upstream (JObj [(''foods'', JArr [JObj [(''description'', JStr ''Milk'')]]),
                           (''error'', JStr ''none'')])) 12) =
     Inr ''Failed to get food details: none'' \<and>
   fst (search_foods sample_repr (Some ''k'')
          (upstream (JObj [(''foods'', JArr [JObj [(''description'', JStr ''Milk'')]]),
                           (''error'', JStr ''none'')])) ''milk'' None 25) =
     Inr ''Search failed: none'' \<and>
   fst (get_food_nutrients sample_repr (Some ''k'')
          (upstream (JObj [(''foods'', JArr [JObj [(''description'', JStr ''Milk'')]]),
                           (''error'', JStr ''none'')])) 12 None) =
     Inr ''Failed to get nutrient data: none'' \<and>
   fst (compare_foods sample_repr (Some ''k'')
          (upstream (JObj [(''foods'', JArr [JObj [(''description'', JStr ''Milk'')]]),
                           (''error'', JStr ''none'')])) ''12'' None) =
     Inr ''Failed to compare foods: none''"
proof -
  define payload where
    "payload = [(''foods'', JArr [JObj [(''description'', JStr ''Milk'')]]), (''error'', JStr ''none'')]"
  have key: "truthy_str (Some ''k'')" by simp
  have err: "map_of payload ''error'' = Some (JStr ''none'')" by (simp add: payload_def)
  have net: "\<forall>r. upstream (JObj payload) r = Json (JObj payload)" by (simp add: upstream_def)
  have args: "accepted_type None" "well_formed None" "\<not> malformed ''12''"
    "length (split_comma ''12'') \<le> 5"
    by code_simp+
  from error_key_is_failure [OF key err net, of sample_repr 12 None "''milk''" 25 None "''12''"] args
  have "fst (get_food_details sample_repr (Some ''k'') (upstream (JObj payload)) 12) =
          Inr ''Failed to get food details: none'' \<and>
        fst (search_foods sample_repr (Some ''k'') (upstream (JObj payload)) ''milk'' None 25) =
          Inr ''Search failed: none'' \<and>
        fst (get_food_nutrients sample_repr (Some ''k'') (upstream (JObj payload)) 12 None) =
          Inr ''Failed to get nutrient data: none'' \<and>
        fst (compare_foods sample_repr (Some ''k'') (upstream (JObj payload)) ''12'' None) =
          Inr ''Failed to compare foods: none''"
    by simp
  with key err net args show ?thesis unfolding payload_def by blast
qed

section \<open>Properties of the formatters\<close>

subsection \<open>Auxiliary facts\<close>

lemma and_then_Inr [simp]: "and_then (Inr v) f = f v"
  by (simp add: and_then_def)

lemma and_then_Inl [simp]: "and_then (Inl e) f = Inl e"
  by (simp add: and_then_def)

lemma is_object_members: "is_object v \<Longrightarrow> v = JObj (members v)"
  by (cases v) (simp_all add: members_def)

lemma py_str_get:
  "py_str rp (case map_of f k of None \<Rightarrow> JStr d | Some v \<Rightarrow> v) = printed rp f k d"
  by (simp add: printed_def split: option.splits)

lemma truthy_get:
  "truthy (case map_of f k of None \<Rightarrow> JNull | Some v \<Rightarrow> v) = present f k"
  by (simp add: present_def split: option.splits)

lemma shown_amount:
  "is_amount a \<Longrightarrow> (if truthy a then py_gt a 0 else Inr False) = Inr (positive a)"
  by (cases a) auto

lemma nutrient_text_entry:
  assumes "NutrientEntry e"
  shows "nutrient_text rp indent e = Inr (if positive_amount e then indent @ entry_line rp e else [])"
proof -
  from assms have e: "e = JObj (members e)"
    by (simp add: NutrientEntry_def is_object_members)
  have inner: "py_get e ''nutrient'' (JObj []) = Inr (JObj (nested e ''nutrient''))"
  proof (cases "map_of (members e) ''nutrient''")
    case None
    then show ?thesis by (subst e) (simp add: nested_def)
  next
    case (Some i)
    with assms have "i = JObj (members i)" by (simp add: NutrientEntry_def is_object_members)
    with Some show ?thesis by (subst e) (simp add: nested_def)
  qed
  have amount: "py_get e ''amount'' (JInt 0) = Inr (entry_amount e)"
    by (subst e) (simp add: entry_amount_def)
  from assms have "is_amount (entry_amount e)"
    by (simp add: NutrientEntry_def entry_amount_def split: option.splits)
  then show ?thesis
    by (simp add: nutrient_text_def inner amount shown_amount positive_amount_def entry_line_def
        py_str_get)
qed

lemma add_nutrients_entries:
  "list_all NutrientEntry ns \<Longrightarrow>
   add_nutrients rp indent ns details =
     Inr (details @ concat (map (\<lambda>e. indent @ entry_line rp e) (filter positive_amount ns)))"
  by (induction ns arbitrary: details) (simp_all add: nutrient_text_entry)

lemma list_all_take: "list_all P xs \<Longrightarrow> list_all P (take n xs)"
  by (auto simp add: list_all_iff dest: in_set_takeD)

lemma get_nested:
  assumes "case map_of f k of None \<Rightarrow> True | Some c \<Rightarrow> is_object c"
  shows "py_get (JObj f) k (JObj []) = Inr (JObj (nested (JObj f) k))"
proof (cases "map_of f k")
  case None
  then show ?thesis by (simp add: nested_def members_def)
next
  case (Some c)
  with assms have "is_object c" by simp
  then obtain kvs where "c = JObj kvs" by (cases c) simp_all
  with Some show ?thesis by (simp add: nested_def members_def)
qed

lemma FoodRecord_nutrients:
  assumes "FoodRecord (JObj f)"
  shows "map_of f ''foodNutrients'' = None \<or>
         (\<exists>ns. map_of f ''foodNutrients'' = Some (JArr ns) \<and> list_all NutrientEntry ns)"
proof (cases "map_of f ''foodNutrients''")
  case None
  then show ?thesis by simp
next
  case (Some v)
  with assms have "nutrient_entries v" by (simp add: FoodRecord_def members_def)
  then show ?thesis using Some by (cases v) simp_all
qed

lemma FoodRecord_category:
  assumes "FoodRecord (JObj f)"
  shows "(case map_of f ''foodCategory'' of None \<Rightarrow> JObj [] | Some v \<Rightarrow> v) =
         JObj (nested (JObj f) ''foodCategory'')"
  using get_nested [of f "''foodCategory''"] assms by (simp add: FoodRecord_def members_def)

subsection \<open>Totality on food records\<close>

text \<open>
  C2. On every food record both formatters return a text and never raise. The summary
  is the five lines with "Unknown", "N/A", "Unknown", "Generic" and "N/A" for a missing
  description, identifier, data type, brand and date; the details start with the four
  lines with "Unknown", "N/A", "Unknown" and "N/A" for a missing description, identifier,
  data type and category.
\<close>

theorem formatters_total:
  assumes "FoodRecord food"
  shows "format_food_summary rp food =
           Inr (''Food: '' @ printed rp (members food) ''description'' ''Unknown'' @
                ''\<newline>FDC ID: '' @ printed rp (members food) ''fdcId'' ''N/A'' @
                ''\<newline>Data Type: '' @ printed rp (members food) ''dataType'' ''Unknown'' @
                ''\<newline>Brand: '' @
                (if present (members food) ''brandOwner''
                 then printed rp (members food) ''brandOwner'' ''N/A'' else ''Generic'') @
                ''\<newline>Published: '' @ printed rp (members food) ''publishedDate'' ''N/A'') \<and>
         (\<exists>rest. format_food_details rp food =
           Inr (''Food: '' @ printed rp (members food) ''description'' ''Unknown'' @
                ''\<newline>FDC ID: '' @ printed rp (members food) ''fdcId'' ''N/A'' @
                ''\<newline>Data Type: '' @ printed rp (members food) ''dataType'' ''Unknown'' @
                ''\<newline>Category: '' @
                printed rp (nested food ''foodCategory'') ''description'' ''N/A'' @
                ''\<newline>'' @ rest))"
proof -
  from assms obtain f where food: "food = JObj f"
    by (cases food) (simp_all add: FoodRecord_def)
  have summary: "format_food_summary rp (JObj f) =
           Inr (''Food: '' @ printed rp f ''description'' ''Unknown'' @
                ''\<newline>FDC ID: '' @ printed rp f ''fdcId'' ''N/A'' @
                ''\<newline>Data Type: '' @ printed rp f ''dataType'' ''Unknown'' @
                ''\<newline>Brand: '' @
                (if present f ''brandOwner'' then printed rp f ''brandOwner'' ''N/A'' else ''Generic'') @
                ''\<newline>Published: '' @ printed rp f ''publishedDate'' ''N/A'')"
    by (simp add: format_food_summary_def py_str_get truthy_get)
  have details: "\<exists>rest. format_food_details rp (JObj f) =
           Inr (''Food: '' @ printed rp f ''description'' ''Unknown'' @
                ''\<newline>FDC ID: '' @ printed rp f ''fdcId'' ''N/A'' @
                ''\<newline>Data Type: '' @ printed rp f ''dataType'' ''Unknown'' @
                ''\<newline>Category: '' @
                printed rp (nested (JObj f) ''foodCategory'') ''description'' ''N/A'' @
                ''\<newline>'' @ rest)"
    using FoodRecord_nutrients [OF assms [unfolded food]]
    by (auto simp add: format_food_details_def FoodRecord_category [OF assms [unfolded food]]
        py_str_get truthy_get present_def Let_def add_nutrients_entries list_all_take)
  from summary details show ?thesis by (simp add: food members_def)
qed

theorem formatters_total_witness:
  "FoodRecord (JObj [(''fdcId'', JInt 12), (''foodNutrients'', JArr [JObj []])]) \<and>
   format_food_summary sample_repr (JObj [(''fdcId'', JInt 12), (''foodNutrients'', JArr [JObj []])]) =
     Inr ''Food: Unknown\<newline>FDC ID: 12\<newline>Data Type: Unknown\<newline>Brand: Generic\<newline>Published: N/A'' \<and>
   (\<exists>rest. format_food_details sample_repr
             (JObj [(''fdcId'', JInt 12), (''foodNutrients'', JArr [JObj []])]) =
      Inr (''Food: Unknown\<newline>FDC ID: 12\<newline>Data Type: Unknown\<newline>Category: N/A\<newline>'' @ rest))"
proof -
  have shape: "FoodRecord (JObj [(''fdcId'', JInt 12), (''foodNutrients'', JArr [JObj []])])"
    by (simp add: FoodRecord_def NutrientEntry_def members_def)
  from formatters_total [OF shape, of sample_repr] shape show ?thesis
    by (simp add: members_def printed_def present_def nested_def str_int_def str_nat.simps
        digit_char_def)
qed

subsection \<open>The nutrition section\<close>

text \<open>
  C3, as amended. The source cuts the sequence to its first ten entries and then skips
  the entries without a positive amount. For every food record with a non-empty
  \<^verbatim>\<open>foodNutrients\<close>, the details are the text of the same record without nutrients,
  followed by the title line and by one line "name: amount unit" (indented by two
  spaces) for each of the first ten entries whose amount is positive, in their order;
  entries whose amount is zero, negative, null or absent, and all entries after the
  tenth, are not listed.
\<close>

theorem nutrition_section:
  assumes "FoodRecord food" and "map_of (members food) ''foodNutrients'' = Some (JArr ns)"
    and "ns \<noteq> []"
  shows "\<exists>head.
           format_food_details rp (JObj (AList.delete ''foodNutrients'' (members food))) = Inr head \<and>
           format_food_details rp food =
             Inr (head @ ''\<newline>Nutritional Information (per 100g):\<newline>'' @
                  concat (map (\<lambda>e. ''  '' @ entry_line rp e)
                            (filter positive_amount (take 10 ns))))"
proof -
  from assms(1) obtain f where food: "food = JObj f"
    by (cases food) (simp_all add: FoodRecord_def)
  from assms(2) have ns: "map_of f ''foodNutrients'' = Some (JArr ns)"
    by (simp add: food members_def)
  with FoodRecord_nutrients [OF assms(1) [unfolded food]] have entries: "list_all NutrientEntry ns"
    by auto
  have category: "(case map_of f ''foodCategory'' of None \<Rightarrow> JObj [] | Some v \<Rightarrow> v) =
      JObj (nested (JObj f) ''foodCategory'')"
    using assms(1) by (simp add: food FoodRecord_category)
  have gone: "map_of (AList.delete ''foodNutrients'' f) ''foodNutrients'' = None"
    by (simp add: AList.delete_conv')
  show ?thesis
    unfolding food members_def
    by (simp add: format_food_details_def category py_str_get truthy_get present_def Let_def ns
        assms(3) add_nutrients_entries list_all_take entries gone)
qed

text \<open>
  The example of the specification: protein with amount 0 is left out and fat is
  listed as "Fat: 5.2 g".
\<close>

theorem nutrition_section_witness:
  "FoodRecord (JObj [(''description'', JStr ''Milk''), (''foodNutrients'', JArr two)]) \<and>
   map_of (members (JObj [(''description'', JStr ''Milk''), (''foodNutrients'', JArr two)]))
     ''foodNutrients'' = Some (JArr two) \<and>
   two \<noteq> [] \<and>
   format_food_details sample_repr (JObj [(''description'', JStr ''Milk''), (''foodNutrients'', JArr two)]) =
     Inr ''Food: Milk\<newline>FDC ID: N/A\<newline>Data Type: Unknown\<newline>Category: N/A\<newline>\<newline>Nutritional Information (per 100g):\<newline>  Fat: 5.2 g\<newline>''"
proof -
  have shape: "FoodRecord (JObj [(''description'', JStr ''Milk''), (''foodNutrients'', JArr two)])"
    by (simp add: FoodRecord_def NutrientEntry_def members_def two_def entry_def)
  have nutrients: "map_of (members (JObj [(''description'', JStr ''Milk''), (''foodNutrients'', JArr two)]))
     ''foodNutrients'' = Some (JArr two)"
    by (simp add: members_def)
  have some: "two \<noteq> []" by (simp add: two_def)
  have head: "format_food_details sample_repr
      (JObj (AList.delete ''foodNutrients''
        (members (JObj [(''description'', JStr ''Milk''), (''foodNutrients'', JArr two)])))) =
      Inr ''Food: Milk\<newline>FDC ID: N/A\<newline>Data Type: Unknown\<newline>Category: N/A\<newline>''"
    by (simp add: members_def format_food_details_def)
  have lines: "concat (map (\<lambda>e. ''  '' @ entry_line sample_repr e) (filter positive_amount (take 10 two))) =
      ''  Fat: 5.2 g\<newline>''"
    by (simp add: two_def entry_def positive_amount_def entry_amount_def members_def entry_line_def
        nested_def printed_def sample_repr_def)
  from nutrition_section [OF shape nutrients some, of sample_repr] head lines
  have "format_food_details sample_repr (JObj [(''description'', JStr ''Milk''), (''foodNutrients'', JArr two)]) =
     Inr ''Food: Milk\<newline>FDC ID: N/A\<newline>Data Type: Unknown\<newline>Category: N/A\<newline>\<newline>Nutritional Information (per 100g):\<newline>  Fat: 5.2 g\<newline>''"
    by auto
  with shape nutrients some show ?thesis by blast
qed

text \<open>
  The claim as stated fails on the sequence \<open>eleven\<close>: zinc is one of the first ten
  entries with a positive amount, and the details do not list it.
\<close>

theorem nutrition_section_counterexample:
  "FoodRecord (JObj [(''foodNutrients'', JArr eleven)]) \<and>
   positive_amount (entry ''Zinc'' (JInt 3)) \<and>
   entry ''Zinc'' (JInt 3) \<in> set (take 10 (filter positive_amount eleven)) \<and>
   \<not> answers_with ''Zinc: 3 g'' (format_food_details sample_repr (JObj [(''foodNutrients'', JArr eleven)]))"
proof -
  have shape: "FoodRecord (JObj [(''foodNutrients'', JArr eleven)])"
    by (simp add: FoodRecord_def NutrientEntry_def members_def eleven_def entry_def list_all_iff)
  have zinc: "positive_amount (entry ''Zinc'' (JInt 3))"
    by (simp add: positive_amount_def entry_amount_def entry_def members_def)
  have first: "take 10 (filter positive_amount eleven) =
      replicate 9 (entry ''Fat'' (JInt 5)) @ [entry ''Zinc'' (JInt 3)]"
    by (simp add: eleven_def positive_amount_def entry_amount_def entry_def members_def)
  have out: "format_food_details sample_repr (JObj [(''foodNutrients'', JArr eleven)]) =
      Inr (''Food: Unknown\<newline>FDC ID: N/A\<newline>Data Type: Unknown\<newline>Category: N/A\<newline>\<newline>Nutritional Information (per 100g):\<newline>'' @
           concat (replicate 9 ''  Fat: 5 g\<newline>''))"
    by (simp add: format_food_details_def eleven_def entry_def nutrient_text_def
        str_int_def str_nat.simps digit_char_def eval_nat_numeral)
  have "\<not> answers_with ''Zinc: 3 g'' (format_food_details sample_repr (JObj [(''foodNutrients'', JArr eleven)]))"
    unfolding out by (simp add: answers_with_def eval_nat_numeral)
  with shape zinc first show ?thesis by simp
qed

end
